theory Spec2Isabelle
  imports Complex_Main
begin

section \<open>Investment portfolio simulator: the Monte Carlo engine\<close>

text \<open>
  A shallow embedding of \<^verbatim>\<open>investment_simulator/model.py\<close> and
  \<^verbatim>\<open>investment_simulator/helpers.py\<close>.

  Numbers. The Python code computes with binary floating point; here every balance,
  rate and percentile is a \<^typ>\<open>real\<close>, so the theorems below are about the exact
  arithmetic the code approximates, not about rounding. The one floating-point value
  that is kept is NaN as the mean of an empty array, written \<open>None\<close>.

  Randomness. \<^verbatim>\<open>np.random.normal\<close> reads a process-wide generator. The generator is
  made an explicit argument: a \<open>random_source\<close> is the sequence of standard normal
  variates still to be drawn, and every function that draws returns the rest of it.

  Errors. An exception is the \<open>Inl\<close> branch of a sum type.

  Loops. Every \<^verbatim>\<open>for\<close> loop is a recursive function over what is left to iterate,
  carrying the variables the loop updates.
\<close>

subsection \<open>Data\<close>

datatype error = ValueError | IndexError

text \<open>
  The \<^verbatim>\<open>inputs\<close> dictionary. \<^verbatim>\<open>app.get_user_inputs\<close> always stores the six keys the engine
  reads, so the dictionary is a record; \<^verbatim>\<open>years\<close> is a Python integer.
\<close>

record inputs =
  years :: int
  initial_investment :: real
  monthly_contribution :: real
  yearly_bonus :: real
  estimated_roi :: real
  volatility :: real

type_synonym random_source = "nat \<Rightarrow> real"

text \<open>The data frame of \<^verbatim>\<open>get_yearly_percentiles\<close>, column by column.\<close>

record yearly_table =
  year :: "nat list"
  c_95th :: "real list"
  c_75th :: "real list"
  c_median :: "real list"
  c_25th :: "real list"
  c_5th :: "real list"
  invested :: "real list"

text \<open>The dictionary returned by \<^verbatim>\<open>perform_monte_carlo\<close>.\<close>

record simulation_result =
  final_balances :: "real list"
  results :: "real list list"
  yearly_percentiles :: yearly_table
  lower_confidence :: real
  upper_confidence :: real
  mean_returns :: "real option list"

definition bind_err :: "error + 'a \<Rightarrow> ('a \<Rightarrow> error + 'b) \<Rightarrow> error + 'b" where
  "bind_err m f = (case m of Inl e \<Rightarrow> Inl e | Inr x \<Rightarrow> f x)"

subsection \<open>The numpy functions the engine calls\<close>

text \<open>
  \<^verbatim>\<open>np.random.normal(loc, scale, size)\<close>: \<open>sz\<close> samples \<open>loc + scale * z\<close>, one standard
  normal variate \<open>z\<close> each. A negative \<open>scale\<close> raises \<^verbatim>\<open>ValueError\<close> (``scale < 0''), and
  so does a negative size \<open>sz\<close>; a \<open>scale\<close> of zero is accepted.
\<close>

definition np_random_normal ::
  "real \<Rightarrow> real \<Rightarrow> int \<Rightarrow> random_source \<Rightarrow> error + (real list \<times> random_source)" where
  "np_random_normal loc scale sz src =
     (if scale < 0 \<or> sz < 0 then Inl ValueError
      else Inr (map (\<lambda>k. loc + scale * src k) [0..<nat sz],
                \<lambda>k. src (k + nat sz)))"

text \<open>
  \<^verbatim>\<open>np.mean\<close>: the mean of an empty array is NaN (with a warning, no exception),
  written \<open>None\<close>.
\<close>

definition np_mean :: "real list \<Rightarrow> real option" where
  "np_mean xs = (if xs = [] then None else Some (sum_list xs / real (length xs)))"

text \<open>
  \<^verbatim>\<open>np.percentile(a, q)\<close> with the default method \<^verbatim>\<open>linear\<close>: on the sorted data of
  size \<open>n\<close> the virtual index is \<open>(n - 1) * q / 100\<close>; the result interpolates linearly
  between the elements at its floor and at the next index (the last index when there is
  no next). A \<open>q\<close> outside \<open>[0, 100]\<close> raises \<^verbatim>\<open>ValueError\<close>. On empty data there is no
  element to read and numpy raises \<^verbatim>\<open>IndexError\<close>.
\<close>

definition np_percentile :: "real list \<Rightarrow> real \<Rightarrow> error + real" where
  "np_percentile a q =
     (if q < 0 \<or> 100 < q then Inl ValueError
      else if a = [] then Inl IndexError
      else
        let arr = sort a;
            values_count = length arr;
            virtual_index = real (values_count - 1) * q / 100;
            previous_index = nat \<lfloor>virtual_index\<rfloor>;
            next_index = min (previous_index + 1) (values_count - 1);
            gamma = virtual_index - real previous_index;
            previous = arr ! previous_index;
            next = arr ! next_index
        in Inr (previous + (next - previous) * gamma))"

text \<open>
  The value \<open>np_percentile\<close> returns where it returns one: the piecewise linear
  interpolant of the sorted data, read at the virtual index.
\<close>

definition percentile_value :: "real list \<Rightarrow> real \<Rightarrow> real" where
  "percentile_value a q =
     (let s = sort a;
          v = real (length a - 1) * q / 100;
          j = nat \<lfloor>v\<rfloor>
      in s ! j + (s ! min (j + 1) (length a - 1) - s ! j) * (v - real j))"

text \<open>
  \<^verbatim>\<open>np.median\<close>, which \<^verbatim>\<open>plots._add_balance_dist\<close> draws between the two confidence
  bounds: the middle element of the sorted data, or the mean of the two middle
  elements; NaN (\<open>None\<close>) on empty data.
\<close>

definition np_median :: "real list \<Rightarrow> real option" where
  "np_median a =
     (if a = [] then None
      else
        let s = sort a; n = length a
        in Some (if odd n then s ! (n div 2)
                 else (s ! (n div 2 - 1) + s ! (n div 2)) / 2))"

text \<open>
  \<^verbatim>\<open>list(zip(*results))\<close>: the tuple of the first elements, of the second elements, and
  so on, until the shortest list is exhausted; no tuple at all when there are no lists.
\<close>

function zip_star :: "'a list list \<Rightarrow> 'a list list" where
  "zip_star rs =
     (if rs = [] \<or> [] \<in> set rs then [] else map hd rs # zip_star (map tl rs))"
  by pat_completeness auto
termination
proof (relation "measure (\<lambda>rs. length (hd rs))")
  show "wf (measure (\<lambda>rs::'a list list. length (hd rs)))"
    by simp
next
  fix rs :: "'a list list"
  assume "\<not> (rs = [] \<or> [] \<in> set rs)"
  then have "rs \<noteq> []" and "hd rs \<noteq> []"
    by (simp, metis hd_in_set)
  then show "(map tl rs, rs) \<in> measure (\<lambda>rs. length (hd rs))"
    by (simp add: hd_map)
qed

declare zip_star.simps [simp del]

subsection \<open>helpers.py\<close>

definition get_random_returns ::
  "int \<Rightarrow> real \<Rightarrow> real \<Rightarrow> random_source \<Rightarrow> error + (real list \<times> random_source)" where
  "get_random_returns yrs roi vol src =
     bind_err (np_random_normal roi vol yrs src)
       (\<lambda>(returns, src'). Inr (map (\<lambda>r. r + 1) returns, src'))"

definition get_confidence_levels :: "real list \<Rightarrow> error + (real \<times> real)" where
  "get_confidence_levels fbs =
     bind_err (np_percentile fbs 97.5) (\<lambda>upper_confidence.
     bind_err (np_percentile fbs 2.5) (\<lambda>lower_confidence.
     Inr (lower_confidence, upper_confidence)))"

text \<open>The body of the loop over \<^verbatim>\<open>enumerate(results_rotated)\<close>: one row is appended.\<close>

definition append_row :: "inputs \<Rightarrow> nat \<Rightarrow> real list \<Rightarrow> yearly_table \<Rightarrow> error + yearly_table" where
  "append_row inp i year_results t =
     bind_err (np_percentile year_results 95) (\<lambda>v95.
     bind_err (np_percentile year_results 75) (\<lambda>v75.
     bind_err (np_percentile year_results 50) (\<lambda>v50.
     bind_err (np_percentile year_results 25) (\<lambda>v25.
     bind_err (np_percentile year_results 5) (\<lambda>v5.
     Inr \<lparr>year = year t @ [i],
          c_95th = c_95th t @ [v95],
          c_75th = c_75th t @ [v75],
          c_median = c_median t @ [v50],
          c_25th = c_25th t @ [v25],
          c_5th = c_5th t @ [v5],
          invested = invested t @
            [initial_investment inp +
             (monthly_contribution inp * 12 + yearly_bonus inp) * real i]\<rparr>)))))"

fun percentile_rows ::
  "inputs \<Rightarrow> (nat \<times> real list) list \<Rightarrow> yearly_table \<Rightarrow> error + yearly_table" where
  "percentile_rows inp [] t = Inr t"
| "percentile_rows inp ((i, year_results) # rest) t =
     bind_err (append_row inp i year_results t) (percentile_rows inp rest)"

definition empty_table :: yearly_table where
  "empty_table =
     \<lparr>year = [], c_95th = [], c_75th = [], c_median = [], c_25th = [], c_5th = [],
      invested = []\<rparr>"

definition get_yearly_percentiles :: "real list list \<Rightarrow> inputs \<Rightarrow> error + yearly_table" where
  "get_yearly_percentiles rs inp =
     (let results_rotated = zip_star rs
      in percentile_rows inp (enumerate 0 results_rotated) empty_table)"

subsection \<open>model.py\<close>

text \<open>The inner loop \<^verbatim>\<open>for _ in range(12)\<close>, with the number of rounds left.\<close>

fun month_loop :: "inputs \<Rightarrow> real \<Rightarrow> nat \<Rightarrow> real \<Rightarrow> real" where
  "month_loop inp monthly_rate 0 balance = balance"
| "month_loop inp monthly_rate (Suc k) balance =
     month_loop inp monthly_rate k
       ((balance + monthly_contribution inp) * (1 + monthly_rate))"

text \<open>
  The outer loop \<^verbatim>\<open>for i in range(years)\<close>, over the indices still to visit.
  \<^verbatim>\<open>returns[i]\<close> raises \<^verbatim>\<open>IndexError\<close> past the end of the array.
\<close>

fun year_loop ::
  "inputs \<Rightarrow> real list \<Rightarrow> nat list \<Rightarrow> real \<times> real list \<Rightarrow> error + (real \<times> real list)" where
  "year_loop inp returns [] (balance, history) = Inr (balance, history)"
| "year_loop inp returns (i # rest) (balance, history) =
     (if i < length returns then
        let annual_return = returns ! i;
            monthly_rate = (annual_return - 1) / 12;
            balance1 = month_loop inp monthly_rate 12 balance;
            balance2 = balance1 + yearly_bonus inp
        in year_loop inp returns rest (balance2, history @ [balance2])
      else Inl IndexError)"

definition perform_simulation ::
  "inputs \<Rightarrow> random_source \<Rightarrow> error + ((real \<times> real list \<times> real option) \<times> random_source)" where
  "perform_simulation inp src =
     bind_err
       (get_random_returns (years inp) (estimated_roi inp) (volatility inp) src)
       (\<lambda>(returns, src').
          let mean_return = map_option (\<lambda>m. (m - 1) * 100) (np_mean returns)
          in bind_err
               (year_loop inp returns [0..<nat (years inp)]
                  (initial_investment inp, [initial_investment inp]))
               (\<lambda>(balance, history). Inr ((balance, history, mean_return), src')))"

text \<open>The loop \<^verbatim>\<open>for _ in range(n)\<close> with its three accumulators.\<close>

fun simulation_loop ::
  "inputs \<Rightarrow> nat \<Rightarrow> real list \<times> real list list \<times> real option list \<Rightarrow> random_source \<Rightarrow>
   error + ((real list \<times> real list list \<times> real option list) \<times> random_source)" where
  "simulation_loop inp 0 acc src = Inr (acc, src)"
| "simulation_loop inp (Suc k) (fbs, rs, mrs) src =
     bind_err (perform_simulation inp src)
       (\<lambda>((final_balance, history, mean_return), src').
          simulation_loop inp k
            (fbs @ [final_balance], rs @ [history], mrs @ [mean_return]) src')"

definition perform_monte_carlo ::
  "inputs \<Rightarrow> int \<Rightarrow> random_source \<Rightarrow> error + (simulation_result \<times> random_source)" where
  "perform_monte_carlo inp n src =
     bind_err (simulation_loop inp (nat n) ([], [], []) src)
       (\<lambda>((fbs, rs, mrs), src').
     bind_err (get_confidence_levels fbs) (\<lambda>(lower, upper).
     bind_err (get_yearly_percentiles rs inp) (\<lambda>table.
     Inr (\<lparr>final_balances = fbs,
           results = rs,
           yearly_percentiles = table,
           lower_confidence = lower,
           upper_confidence = upper,
           mean_returns = mrs\<rparr>, src'))))"

subsection \<open>Concrete parameters\<close>

text \<open>
  The scenario of the specification: one year, 50000 to start with, 1000 a month, a
  bonus of 5000, an expected return of 0.08 and no volatility.
\<close>

definition scenario :: inputs where
  "scenario = \<lparr>years = 1, initial_investment = 50000, monthly_contribution = 1000,
     yearly_bonus = 5000, estimated_roi = 0.08, volatility = 0\<rparr>"

text \<open>
  A run of two paths: no expected return, a volatility of 1, and a source whose second
  variate is 12, so that the first path grows at a monthly rate of 0 and the second at a
  monthly rate of 1.
\<close>

definition sample_draws :: random_source where
  "sample_draws = (\<lambda>k. if k = 1 then 12 else 0)"

definition sample_inputs :: inputs where
  "sample_inputs = \<lparr>years = 1, initial_investment = 50000, monthly_contribution = 1000,
     yearly_bonus = 5000, estimated_roi = 0, volatility = 1\<rparr>"

text \<open>What that run returns.\<close>

definition sample_result :: simulation_result where
  "sample_result =
     \<lparr>final_balances = [67000, 212995000],
      results = [[50000, 67000], [50000, 212995000]],
      yearly_percentiles =
        \<lparr>year = [0, 1], c_95th = [50000, 202348600], c_75th = [50000, 159763000],
         c_median = [50000, 106531000], c_25th = [50000, 53299000],
         c_5th = [50000, 10713400], invested = [50000, 67000]\<rparr>,
      lower_confidence = 5390200, upper_confidence = 207671800,
      mean_returns = [Some 0, Some 1200]\<rparr>"

text \<open>What a run of the second path alone returns.\<close>

definition single_result :: simulation_result where
  "single_result =
     \<lparr>final_balances = [212995000],
      results = [[50000, 212995000]],
      yearly_percentiles =
        \<lparr>year = [0, 1], c_95th = [50000, 212995000], c_75th = [50000, 212995000],
         c_median = [50000, 212995000], c_25th = [50000, 212995000],
         c_5th = [50000, 212995000], invested = [50000, 67000]\<rparr>,
      lower_confidence = 212995000, upper_confidence = 212995000,
      mean_returns = [Some 1200]\<rparr>"

text \<open>
  Parameters outside the domain the specification declares: a negative initial
  investment, a horizon of zero years, a negative volatility, a negative horizon.
\<close>

definition overdrawn :: inputs where
  "overdrawn = \<lparr>years = 1, initial_investment = - 50000, monthly_contribution = 1000,
     yearly_bonus = 5000, estimated_roi = 0, volatility = 0\<rparr>"

definition overdrawn_result :: simulation_result where
  "overdrawn_result =
     \<lparr>final_balances = [- 33000],
      results = [[- 50000, - 33000]],
      yearly_percentiles =
        \<lparr>year = [0, 1], c_95th = [- 50000, - 33000], c_75th = [- 50000, - 33000],
         c_median = [- 50000, - 33000], c_25th = [- 50000, - 33000],
         c_5th = [- 50000, - 33000], invested = [- 50000, - 33000]\<rparr>,
      lower_confidence = - 33000, upper_confidence = - 33000,
      mean_returns = [Some 0]\<rparr>"

definition no_horizon :: inputs where
  "no_horizon = \<lparr>years = 0, initial_investment = 50000, monthly_contribution = 1000,
     yearly_bonus = 5000, estimated_roi = 0.08, volatility = 0.15\<rparr>"

definition negative_volatility :: inputs where
  "negative_volatility = \<lparr>years = 1, initial_investment = 50000,
     monthly_contribution = 1000, yearly_bonus = 5000, estimated_roi = 0.08,
     volatility = - 0.15\<rparr>"

definition negative_horizon :: inputs where
  "negative_horizon = \<lparr>years = - 1, initial_investment = 50000,
     monthly_contribution = 1000, yearly_bonus = 5000, estimated_roi = 0.08,
     volatility = 0.15\<rparr>"

section \<open>Properties\<close>

subsection \<open>The return generator and the path simulator\<close>


lemma bind_err_Inr [simp]: "bind_err (Inr x) f = f x"
  by (simp add: bind_err_def)

lemma bind_err_Inl [simp]: "bind_err (Inl e) f = Inl e"
  by (simp add: bind_err_def)

lemma bind_err_eq_Inr:
  "bind_err m f = Inr y \<longleftrightarrow> (\<exists>x. m = Inr x \<and> f x = Inr y)"
  by (cases m) simp_all

lemma month_loop_funpow:
  "month_loop inp rate k b = ((\<lambda>x. (x + monthly_contribution inp) * (1 + rate)) ^^ k) b"
proof (induction k arbitrary: b)
  case 0
  show ?case by simp
next
  case (Suc k)
  let ?f = "\<lambda>x. (x + monthly_contribution inp) * (1 + rate)"
  have "month_loop inp rate (Suc k) b = (?f ^^ k) (?f b)"
    using Suc.IH by simp
  also have "\<dots> = (?f ^^ Suc k) b"
    by (simp only: funpow_Suc_right o_apply)
  finally show ?case .
qed

lemma year_loop_trace:
  assumes "\<forall>i\<in>set idxs. i < length returns"
  shows "\<exists>ext. year_loop inp returns idxs (bal, hist) = Inr (last (bal # ext), hist @ ext)
           \<and> length ext = length idxs
           \<and> (\<forall>k<length idxs. ext ! k =
                month_loop inp ((returns ! (idxs ! k) - 1) / 12) 12 ((bal # ext) ! k)
                  + yearly_bonus inp)"
  using assms
proof (induction idxs arbitrary: bal hist)
  case Nil
  then show ?case by simp
next
  case (Cons i rest)
  define b2 where "b2 = month_loop inp ((returns ! i - 1) / 12) 12 bal + yearly_bonus inp"
  from Cons.prems have i: "i < length returns" and rest: "\<forall>j\<in>set rest. j < length returns"
    by simp_all
  from Cons.IH [OF rest, of b2 "hist @ [b2]"] obtain ext where
    run: "year_loop inp returns rest (b2, hist @ [b2]) = Inr (last (b2 # ext), (hist @ [b2]) @ ext)"
    and len: "length ext = length rest"
    and nth: "\<forall>k<length rest. ext ! k =
                month_loop inp ((returns ! (rest ! k) - 1) / 12) 12 ((b2 # ext) ! k)
                  + yearly_bonus inp"
    by blast
  have step: "year_loop inp returns (i # rest) (bal, hist)
                = year_loop inp returns rest (b2, hist @ [b2])"
    using i by (simp add: b2_def Let_def)
  have "\<forall>k<length (i # rest). (b2 # ext) ! k =
          month_loop inp ((returns ! ((i # rest) ! k) - 1) / 12) 12 ((bal # b2 # ext) ! k)
            + yearly_bonus inp"
  proof (intro allI impI)
    fix k assume k: "k < length (i # rest)"
    show "(b2 # ext) ! k =
          month_loop inp ((returns ! ((i # rest) ! k) - 1) / 12) 12 ((bal # b2 # ext) ! k)
            + yearly_bonus inp"
    proof (cases k)
      case 0
      then show ?thesis by (simp add: b2_def)
    next
      case (Suc k')
      with k have "k' < length rest" by simp
      with nth Suc show ?thesis by simp
    qed
  qed
  moreover have "year_loop inp returns (i # rest) (bal, hist)
                   = Inr (last (bal # b2 # ext), hist @ (b2 # ext))"
    using step run by simp
  moreover have "length (b2 # ext) = length (i # rest)"
    using len by simp
  ultimately show ?case by blast
qed


lemma get_random_returns_eq:
  "get_random_returns y roi vol src =
     (if vol < 0 \<or> y < 0 then Inl ValueError
      else Inr (map (\<lambda>k. roi + vol * src k + 1) [0..<nat y], \<lambda>k. src (k + nat y)))"
  by (simp add: get_random_returns_def np_random_normal_def)

lemma get_random_returns_length:
  "get_random_returns y roi vol src = Inr (returns, src') \<Longrightarrow> length returns = nat y"
  by (auto simp: get_random_returns_eq split: if_splits)

lemma every_sequence_is_drawn:
  "get_random_returns (int (length rs)) 0 1 (\<lambda>k. rs ! k - 1) =
     Inr (rs, \<lambda>k. rs ! (k + length rs) - 1)"
  by (simp add: get_random_returns_eq map_upt_eqI)

lemma perform_simulation_trace:
  assumes "get_random_returns (years inp) (estimated_roi inp) (volatility inp) src
             = Inr (returns, src')"
  shows "\<exists>ext. perform_simulation inp src =
           Inr ((last (initial_investment inp # ext), initial_investment inp # ext,
                 map_option (\<lambda>m. (m - 1) * 100) (np_mean returns)), src')
           \<and> length ext = nat (years inp)
           \<and> (\<forall>k<nat (years inp). ext ! k =
                month_loop inp ((returns ! k - 1) / 12) 12 ((initial_investment inp # ext) ! k)
                  + yearly_bonus inp)"
proof -
  have len: "length returns = nat (years inp)"
    using assms by (rule get_random_returns_length)
  then have "\<forall>i\<in>set [0..<nat (years inp)]. i < length returns"
    by simp
  from year_loop_trace [OF this, of inp "initial_investment inp" "[initial_investment inp]"]
  obtain ext where
    run: "year_loop inp returns [0..<nat (years inp)]
            (initial_investment inp, [initial_investment inp])
          = Inr (last (initial_investment inp # ext), [initial_investment inp] @ ext)"
    and ext: "length ext = length [0..<nat (years inp)]"
    and nth: "\<forall>k<length [0..<nat (years inp)]. ext ! k =
                month_loop inp ((returns ! ([0..<nat (years inp)] ! k) - 1) / 12) 12
                  ((initial_investment inp # ext) ! k) + yearly_bonus inp"
    by blast
  have "perform_simulation inp src =
          Inr ((last (initial_investment inp # ext), initial_investment inp # ext,
                map_option (\<lambda>m. (m - 1) * 100) (np_mean returns)), src')"
    unfolding perform_simulation_def using assms run by (simp add: Let_def)
  moreover have "length ext = nat (years inp)"
    using ext by simp
  moreover have "\<forall>k<nat (years inp). ext ! k =
                month_loop inp ((returns ! k - 1) / 12) 12 ((initial_investment inp # ext) ! k)
                  + yearly_bonus inp"
    using nth by simp
  ultimately show ?thesis by blast
qed

lemma perform_simulation_total:
  assumes "0 \<le> volatility inp" and "0 \<le> years inp"
  shows "\<exists>out src'. perform_simulation inp src = Inr (out, src')"
proof -
  from assms have "get_random_returns (years inp) (estimated_roi inp) (volatility inp) src =
      Inr (map (\<lambda>k. estimated_roi inp + volatility inp * src k + 1) [0..<nat (years inp)],
           \<lambda>k. src (k + nat (years inp)))"
    by (simp add: get_random_returns_eq)
  from perform_simulation_trace [OF this] show ?thesis
    by blast
qed

lemma perform_simulation_Inr:
  assumes "perform_simulation inp src = Inr ((balance, history, mean_return), src')"
  shows "\<exists>returns ext.
           get_random_returns (years inp) (estimated_roi inp) (volatility inp) src
             = Inr (returns, src')
           \<and> history = initial_investment inp # ext
           \<and> balance = last history
           \<and> length ext = nat (years inp)
           \<and> mean_return = map_option (\<lambda>m. (m - 1) * 100) (np_mean returns)"
proof -
  from assms obtain returns s1 where
    g: "get_random_returns (years inp) (estimated_roi inp) (volatility inp) src
          = Inr (returns, s1)"
    unfolding perform_simulation_def by (auto simp: bind_err_eq_Inr)
  from perform_simulation_trace [OF g] obtain ext where
    run: "perform_simulation inp src =
           Inr ((last (initial_investment inp # ext), initial_investment inp # ext,
                 map_option (\<lambda>m. (m - 1) * 100) (np_mean returns)), s1)"
    and len: "length ext = nat (years inp)"
    by blast
  from run assms have "s1 = src'" "history = initial_investment inp # ext"
    "balance = last (initial_investment inp # ext)"
    "mean_return = map_option (\<lambda>m. (m - 1) * 100) (np_mean returns)"
    by simp_all
  with g len show ?thesis by blast
qed

lemma simulation_loop_Inr:
  assumes "simulation_loop inp k (fbs, rs, mrs) src = Inr ((fbs2, rs2, mrs2), src')"
  shows "\<exists>fbs' rs' mrs'. fbs2 = fbs @ fbs' \<and> rs2 = rs @ rs' \<and> mrs2 = mrs @ mrs'
           \<and> length fbs' = k \<and> length rs' = k \<and> length mrs' = k
           \<and> (\<forall>j<k. \<exists>s s'. perform_simulation inp s
                               = Inr ((fbs' ! j, rs' ! j, mrs' ! j), s'))"
  using assms
proof (induction k arbitrary: fbs rs mrs src)
  case 0
  then show ?case by simp
next
  case (Suc k)
  from Suc.prems obtain fb h mr s1 where
    first: "perform_simulation inp src = Inr ((fb, h, mr), s1)"
    and rest: "simulation_loop inp k (fbs @ [fb], rs @ [h], mrs @ [mr]) s1
                 = Inr ((fbs2, rs2, mrs2), src')"
    by (auto simp: bind_err_eq_Inr)
  from Suc.IH [OF rest] obtain fbs' rs' mrs' where
    eqs: "fbs2 = (fbs @ [fb]) @ fbs'" "rs2 = (rs @ [h]) @ rs'" "mrs2 = (mrs @ [mr]) @ mrs'"
    and lens: "length fbs' = k" "length rs' = k" "length mrs' = k"
    and paths: "\<forall>j<k. \<exists>s s'. perform_simulation inp s
                               = Inr ((fbs' ! j, rs' ! j, mrs' ! j), s')"
    by blast
  have "\<forall>j<Suc k. \<exists>s s'. perform_simulation inp s
                     = Inr (((fb # fbs') ! j, (h # rs') ! j, (mr # mrs') ! j), s')"
  proof (intro allI impI)
    fix j assume "j < Suc k"
    then show "\<exists>s s'. perform_simulation inp s
                 = Inr (((fb # fbs') ! j, (h # rs') ! j, (mr # mrs') ! j), s')"
      using first paths by (cases j) auto
  qed
  moreover have "fbs2 = fbs @ (fb # fbs')" "rs2 = rs @ (h # rs')" "mrs2 = mrs @ (mr # mrs')"
    using eqs by simp_all
  moreover have "length (fb # fbs') = Suc k" "length (h # rs') = Suc k"
    "length (mr # mrs') = Suc k"
    using lens by simp_all
  ultimately show ?case by blast
qed

lemma simulation_loop_total:
  assumes "0 \<le> volatility inp" and "0 \<le> years inp"
  shows "\<exists>out src'. simulation_loop inp k acc src = Inr (out, src')"
proof (induction k arbitrary: acc src)
  case 0
  show ?case by (cases acc) simp
next
  case (Suc k)
  obtain fbs rs mrs where acc: "acc = (fbs, rs, mrs)"
    by (cases acc) auto
  from perform_simulation_total [OF assms, of src] obtain fb h mr s1 where
    "perform_simulation inp src = Inr ((fb, h, mr), s1)"
    by (metis prod_cases3)
  then show ?case
    using Suc.IH [of "(fbs @ [fb], rs @ [h], mrs @ [mr])" s1] acc by simp
qed

lemma perform_monte_carlo_Inr:
  assumes "perform_monte_carlo inp n src = Inr (res, src')"
  shows "simulation_loop inp (nat n) ([], [], []) src
           = Inr ((final_balances res, results res, mean_returns res), src')
         \<and> get_confidence_levels (final_balances res)
             = Inr (lower_confidence res, upper_confidence res)
         \<and> get_yearly_percentiles (results res) inp = Inr (yearly_percentiles res)"
  using assms unfolding perform_monte_carlo_def
  by (auto simp: bind_err_eq_Inr)

lemma perform_monte_carlo_paths:
  assumes "perform_monte_carlo inp n src = Inr (res, src')"
  shows "length (final_balances res) = nat n \<and> length (results res) = nat n
         \<and> length (mean_returns res) = nat n
         \<and> (\<forall>j<nat n. \<exists>s s'. perform_simulation inp s
               = Inr ((final_balances res ! j, results res ! j, mean_returns res ! j), s'))"
proof -
  from perform_monte_carlo_Inr [OF assms] have
    "simulation_loop inp (nat n) ([], [], []) src
           = Inr ((final_balances res, results res, mean_returns res), src')"
    by simp
  from simulation_loop_Inr [OF this] show ?thesis
    by auto
qed

text \<open>
  Claim C1. For a horizon of at least one year and the return multipliers the generator
  produced, the path simulator returns a trajectory whose value at year 0 is the initial
  investment and whose value at year \<open>i + 1\<close> comes from the value at year \<open>i\<close> by twelve
  rounds of adding the monthly contribution and then multiplying by
  \<open>1 + (multiplier i - 1) / 12\<close>, followed by adding the yearly bonus once.
\<close>

theorem path_recurrence:
  assumes "1 \<le> years inp"
    and "get_random_returns (years inp) (estimated_roi inp) (volatility inp) src
           = Inr (returns, src')"
  shows "\<exists>balance history mean_return.
           perform_simulation inp src = Inr ((balance, history, mean_return), src')
           \<and> history ! 0 = initial_investment inp
           \<and> (\<forall>i<nat (years inp). history ! (i + 1) =
                ((\<lambda>b. (b + monthly_contribution inp) * (1 + (returns ! i - 1) / 12)) ^^ 12)
                  (history ! i)
                + yearly_bonus inp)"
proof -
  from perform_simulation_trace [OF assms(2)] obtain ext where
    run: "perform_simulation inp src =
           Inr ((last (initial_investment inp # ext), initial_investment inp # ext,
                 map_option (\<lambda>m. (m - 1) * 100) (np_mean returns)), src')"
    and nth: "\<forall>k<nat (years inp). ext ! k =
                month_loop inp ((returns ! k - 1) / 12) 12 ((initial_investment inp # ext) ! k)
                  + yearly_bonus inp"
    by blast
  let ?history = "initial_investment inp # ext"
  have "?history ! 0 = initial_investment inp"
    by simp
  moreover have "\<forall>i<nat (years inp). ?history ! (i + 1) =
                ((\<lambda>b. (b + monthly_contribution inp) * (1 + (returns ! i - 1) / 12)) ^^ 12)
                  (?history ! i)
                + yearly_bonus inp"
    using nth by (simp add: month_loop_funpow)
  ultimately show ?thesis
    using run by blast
qed

theorem path_recurrence_witness:
  "1 \<le> years scenario
   \<and> get_random_returns (years scenario) (estimated_roi scenario) (volatility scenario) (\<lambda>k. 0)
       = Inr ([1.08], \<lambda>k. 0)
   \<and> (\<exists>balance history mean_return.
         perform_simulation scenario (\<lambda>k. 0) = Inr ((balance, history, mean_return), \<lambda>k. 0)
         \<and> history ! 0 = 50000
         \<and> history ! 1 = ((\<lambda>b. (b + 1000) * (1 + (1.08 - 1) / 12)) ^^ 12) 50000 + 5000)"
proof -
  have h1: "1 \<le> years scenario"
    by (simp add: scenario_def)
  have h2: "get_random_returns (years scenario) (estimated_roi scenario) (volatility scenario)
              (\<lambda>k. 0) = Inr ([1.08], \<lambda>k. 0)"
    by (simp add: scenario_def get_random_returns_eq)
  from path_recurrence [OF h1 h2] obtain balance history mean_return where
    run: "perform_simulation scenario (\<lambda>k. 0) = Inr ((balance, history, mean_return), \<lambda>k. 0)"
    and h0: "history ! 0 = initial_investment scenario"
    and step: "\<forall>i<nat (years scenario). history ! (i + 1) =
                ((\<lambda>b. (b + monthly_contribution scenario) * (1 + ([1.08] ! i - 1) / 12)) ^^ 12)
                  (history ! i)
                + yearly_bonus scenario"
    by blast
  from step have "history ! 1 =
      ((\<lambda>b. (b + monthly_contribution scenario) * (1 + ([1.08] ! 0 - 1) / 12)) ^^ 12)
                  (history ! 0) + yearly_bonus scenario"
    by (simp add: scenario_def)
  with h0 have "history ! 1 = ((\<lambda>b. (b + 1000) * (1 + (1.08 - 1) / 12)) ^^ 12) 50000 + 5000"
    by (simp add: scenario_def)
  moreover have "history ! 0 = 50000"
    using h0 by (simp add: scenario_def)
  ultimately show ?thesis
    using h1 h2 run by blast
qed

subsection \<open>Percentiles\<close>

lemma interp_mono:
  fixes s :: "real list"
  assumes srt: "sorted s" and ne: "s \<noteq> []"
    and v0: "0 \<le> v" and vw: "v \<le> w" and wn: "w \<le> real (length s - 1)"
  shows "s ! nat \<lfloor>v\<rfloor> + (s ! min (nat \<lfloor>v\<rfloor> + 1) (length s - 1) - s ! nat \<lfloor>v\<rfloor>) * (v - real (nat \<lfloor>v\<rfloor>))
       \<le> s ! nat \<lfloor>w\<rfloor> + (s ! min (nat \<lfloor>w\<rfloor> + 1) (length s - 1) - s ! nat \<lfloor>w\<rfloor>) * (w - real (nat \<lfloor>w\<rfloor>))"
proof -
  define j where "j = nat \<lfloor>v\<rfloor>"
  define k where "k = nat \<lfloor>w\<rfloor>"
  define n where "n = length s"
  have n: "0 < n" using ne by (simp add: n_def)
  have w0: "0 \<le> w" using v0 vw by simp
  have jv: "real j \<le> v" "v < real j + 1"
    using v0 unfolding j_def by linarith+
  have kw: "real k \<le> w" "w < real k + 1"
    using w0 unfolding k_def by linarith+
  have jk: "j \<le> k"
    unfolding j_def k_def using vw by (simp add: floor_mono nat_mono)
  have kn: "k \<le> n - 1"
    using kw(1) wn unfolding n_def by linarith
  have mono: "\<And>a b. a \<le> b \<Longrightarrow> b < n \<Longrightarrow> s ! a \<le> s ! b"
    using srt unfolding n_def by (simp add: sorted_nth_mono)
  have nextj: "s ! j \<le> s ! min (j + 1) (n - 1)"
    using jk kn n by (intro mono) auto
  have nextk: "s ! k \<le> s ! min (k + 1) (n - 1)"
    using kn n by (intro mono) auto
  have gj: "0 \<le> v - real j" "v - real j \<le> 1"
    using jv by simp_all
  have gk: "0 \<le> w - real k"
    using kw by simp
  have goal: "s ! j + (s ! min (j + 1) (n - 1) - s ! j) * (v - real j)
       \<le> s ! k + (s ! min (k + 1) (n - 1) - s ! k) * (w - real k)"
  proof (cases "j = k")
    case True
    have "v - real j \<le> w - real j" using vw by simp
    then have "(s ! min (j + 1) (n - 1) - s ! j) * (v - real j)
             \<le> (s ! min (j + 1) (n - 1) - s ! j) * (w - real j)"
      using nextj by (intro mult_left_mono) simp_all
    then show ?thesis using True by simp
  next
    case False
    with jk have lt: "j + 1 \<le> k" by simp
    then have m: "min (j + 1) (n - 1) = j + 1" using kn by simp
    have d: "0 \<le> s ! (j + 1) - s ! j" using nextj m by simp
    have "(s ! (j + 1) - s ! j) * (v - real j) \<le> (s ! (j + 1) - s ! j) * 1"
      using d gj(2) by (intro mult_left_mono) simp_all
    then have "s ! j + (s ! (j + 1) - s ! j) * (v - real j) \<le> s ! (j + 1)"
      by simp
    also have "\<dots> \<le> s ! k"
      using lt kn n by (intro mono) auto
    also have "\<dots> \<le> s ! k + (s ! min (k + 1) (n - 1) - s ! k) * (w - real k)"
      using nextk gk by simp
    finally show ?thesis using m by simp
  qed
  then show ?thesis
    unfolding j_def k_def n_def .
qed

lemma np_percentile_eq:
  "np_percentile a q =
     (if q < 0 \<or> 100 < q then Inl ValueError
      else if a = [] then Inl IndexError
      else Inr (percentile_value a q))"
  by (simp add: np_percentile_def percentile_value_def Let_def)

lemma percentile_value_mono:
  assumes "a \<noteq> []" and "0 \<le> p" and "p \<le> q" and "q \<le> 100"
  shows "percentile_value a p \<le> percentile_value a q"
proof -
  let ?s = "sort a"
  let ?v = "real (length a - 1) * p / 100"
  let ?w = "real (length a - 1) * q / 100"
  have s1: "sorted ?s"
    by simp
  have s2: "?s \<noteq> []"
    using assms(1) by (metis length_sort length_0_conv)
  have v0: "0 \<le> ?v"
    using assms(2) by simp
  have vw: "?v \<le> ?w"
    using assms(3) by (simp add: mult_left_mono divide_right_mono)
  have "real (length a - 1) * q \<le> real (length a - 1) * 100"
    using assms(4) by (intro mult_left_mono) simp_all
  then have wn: "?w \<le> real (length ?s - 1)"
    by simp
  from interp_mono [OF s1 s2 v0 vw wn] show ?thesis
    by (simp add: percentile_value_def Let_def)
qed

lemma percentile_value_singleton: "percentile_value [x] q = x"
  by (simp add: percentile_value_def)

lemma percentile_value_replicate:
  assumes "0 < k" and "0 \<le> q" and "q \<le> 100"
  shows "percentile_value (replicate k x) q = x"
proof -
  have srt: "sort (replicate k x) = replicate k x"
    by (simp add: sorted_replicate sort_key_id_if_sorted)
  let ?v = "real (k - 1) * q / 100"
  have "?v \<le> real (k - 1)"
    using assms(3) mult_left_mono [of q 100 "real (k - 1)"] by simp
  moreover have "0 \<le> ?v" using assms(2) by simp
  ultimately have "nat \<lfloor>?v\<rfloor> \<le> k - 1"
    by linarith
  then have "nat \<lfloor>?v\<rfloor> < k" "min (nat \<lfloor>?v\<rfloor> + 1) (k - 1) < k"
    using assms(1) by auto
  then show ?thesis
    by (simp add: percentile_value_def Let_def srt)
qed

lemma percentile_50_is_median:
  assumes "a \<noteq> []"
  shows "np_median a = Some (percentile_value a 50)"
proof -
  define n where "n = length a"
  define s where "s = sort a"
  have n: "0 < n" using assms by (simp add: n_def)
  have v: "real (n - 1) * 50 / 100 = real (n - 1) / 2" by simp
  show ?thesis
  proof (cases "odd n")
    case True
    then obtain m where m: "n = 2 * m + 1"
      by (auto elim: oddE)
    then have "real (n - 1) / 2 = real m" by simp
    then have "percentile_value a 50 = s ! m"
      unfolding percentile_value_def Let_def n_def [symmetric] s_def [symmetric] v by simp
    moreover have "n div 2 = m" using m by simp
    ultimately show ?thesis
      using True assms by (simp add: np_median_def Let_def n_def [symmetric] s_def [symmetric])
  next
    case False
    with n obtain m where m: "n = 2 * m" "0 < m"
      by (auto elim: evenE)
    then have r: "real (n - 1) / 2 = real (m - 1) + 1 / 2"
      by (cases m) simp_all
    have fl: "\<lfloor>real (m - 1) + 1 / 2\<rfloor> = int (m - 1)"
      by linarith
    have mn: "min (Suc (m - Suc 0)) (n - Suc 0) = m" using m by simp
    have "percentile_value a 50 = s ! (m - 1) + (s ! m - s ! (m - 1)) * (1 / 2)"
      unfolding percentile_value_def Let_def n_def [symmetric] s_def [symmetric] v r fl
      by (simp add: mn)
    then have "percentile_value a 50 = (s ! (m - 1) + s ! m) / 2"
      by (simp add: field_simps)
    moreover have "n div 2 = m" using m by simp
    ultimately show ?thesis
      using False assms by (simp add: np_median_def Let_def n_def [symmetric] s_def [symmetric])
  qed
qed

subsection \<open>The confidence levels and the rotation of the trajectories\<close>

lemma get_confidence_levels_eq:
  "get_confidence_levels fbs =
     (if fbs = [] then Inl IndexError
      else Inr (percentile_value fbs 2.5, percentile_value fbs 97.5))"
  by (simp add: get_confidence_levels_def np_percentile_eq)

lemma zip_star_rows:
  "ys \<in> set (zip_star rs) \<Longrightarrow> length ys = length rs \<and> rs \<noteq> []"
proof (induction rs arbitrary: ys rule: zip_star.induct)
  case (1 rs)
  show ?case
  proof (cases "rs = [] \<or> [] \<in> set rs")
    case True
    with "1.prems" show ?thesis
      by (simp add: zip_star.simps [of rs])
  next
    case False
    with "1.prems" have "ys = map hd rs \<or> ys \<in> set (zip_star (map tl rs))"
      by (simp add: zip_star.simps [of rs])
    then show ?thesis
      using "1.IH" [OF False] False by auto
  qed
qed

lemma zip_star_eq:
  assumes "rs \<noteq> []" and "\<forall>r\<in>set rs. length r = L"
  shows "zip_star rs = map (\<lambda>i. map (\<lambda>r. r ! i) rs) [0..<L]"
  using assms
proof (induction L arbitrary: rs)
  case 0
  then have "[] \<in> set rs"
    by (cases rs) auto
  then show ?case
    by (simp add: zip_star.simps [of rs])
next
  case (Suc L)
  then have no: "\<not> (rs = [] \<or> [] \<in> set rs)"
    by auto
  have tl_ok: "map tl rs \<noteq> []" "\<forall>r\<in>set (map tl rs). length r = L"
    using Suc.prems by auto
  have "\<And>r. r \<in> set rs \<Longrightarrow> hd r = r ! 0"
    using no by (metis hd_conv_nth)
  then have heads: "map hd rs = map (\<lambda>r. r ! 0) rs"
    by simp
  have tails: "map (\<lambda>i. map (\<lambda>r. r ! i) (map tl rs)) [0..<L]
                 = map (\<lambda>i. map (\<lambda>r. r ! Suc i) rs) [0..<L]"
    using Suc.prems(2) by (auto simp: nth_tl)
  have "zip_star rs = map hd rs # zip_star (map tl rs)"
    using no by (simp add: zip_star.simps [of rs])
  also have "\<dots> = map (\<lambda>r. r ! 0) rs # map (\<lambda>i. map (\<lambda>r. r ! Suc i) rs) [0..<L]"
    using Suc.IH [OF tl_ok] heads tails by simp
  also have "\<dots> = map (\<lambda>i. map (\<lambda>r. r ! i) rs) [0..<Suc L]"
    by (simp only: upt_conv_Cons [of 0 "Suc L"] map_Suc_upt [symmetric] list.map)
       (simp add: comp_def)
  finally show ?case .
qed

subsection \<open>The yearly percentile table\<close>

lemma append_row_eq:
  assumes "year_results \<noteq> []"
  shows "append_row inp i year_results t =
     Inr \<lparr>year = year t @ [i],
          c_95th = c_95th t @ [percentile_value year_results 95],
          c_75th = c_75th t @ [percentile_value year_results 75],
          c_median = c_median t @ [percentile_value year_results 50],
          c_25th = c_25th t @ [percentile_value year_results 25],
          c_5th = c_5th t @ [percentile_value year_results 5],
          invested = invested t @
            [initial_investment inp +
             (monthly_contribution inp * 12 + yearly_bonus inp) * real i]\<rparr>"
  using assms by (simp add: append_row_def np_percentile_eq)

lemma percentile_rows_eq:
  assumes "\<forall>row\<in>set rows. snd row \<noteq> []"
  shows "percentile_rows inp rows t =
     Inr \<lparr>year = year t @ map fst rows,
          c_95th = c_95th t @ map (\<lambda>row. percentile_value (snd row) 95) rows,
          c_75th = c_75th t @ map (\<lambda>row. percentile_value (snd row) 75) rows,
          c_median = c_median t @ map (\<lambda>row. percentile_value (snd row) 50) rows,
          c_25th = c_25th t @ map (\<lambda>row. percentile_value (snd row) 25) rows,
          c_5th = c_5th t @ map (\<lambda>row. percentile_value (snd row) 5) rows,
          invested = invested t @
            map (\<lambda>row. initial_investment inp +
               (monthly_contribution inp * 12 + yearly_bonus inp) * real (fst row)) rows\<rparr>"
  using assms
proof (induction rows arbitrary: t)
  case Nil
  show ?case by simp
next
  case (Cons row rows)
  obtain i yr where row: "row = (i, yr)"
    by (cases row) blast
  with Cons.prems have yr: "yr \<noteq> []" and rest: "\<forall>row\<in>set rows. snd row \<noteq> []"
    by simp_all
  show ?case
    unfolding row by (simp add: append_row_eq [OF yr] Cons.IH [OF rest])
qed

lemma get_yearly_percentiles_eq:
  "get_yearly_percentiles rs inp =
     Inr \<lparr>year = [0..<length (zip_star rs)],
          c_95th = map (\<lambda>yr. percentile_value yr 95) (zip_star rs),
          c_75th = map (\<lambda>yr. percentile_value yr 75) (zip_star rs),
          c_median = map (\<lambda>yr. percentile_value yr 50) (zip_star rs),
          c_25th = map (\<lambda>yr. percentile_value yr 25) (zip_star rs),
          c_5th = map (\<lambda>yr. percentile_value yr 5) (zip_star rs),
          invested = map (\<lambda>i. initial_investment inp +
               (monthly_contribution inp * 12 + yearly_bonus inp) * real i)
             [0..<length (zip_star rs)]\<rparr>"
proof -
  let ?rows = "enumerate 0 (zip_star rs)"
  have ne: "\<forall>row\<in>set ?rows. snd row \<noteq> []"
  proof
    fix row assume "row \<in> set ?rows"
    then have "snd row \<in> set (zip_star rs)"
      by (metis image_eqI list.set_map map_snd_enumerate)
    from zip_star_rows [OF this] show "snd row \<noteq> []"
      by auto
  qed
  have sndmap: "map (\<lambda>row. f (snd row)) ?rows = map f (zip_star rs)"
    for f :: "real list \<Rightarrow> real"
  proof -
    have "map (\<lambda>row. f (snd row)) ?rows = map f (map snd ?rows)"
      by (simp only: map_map comp_def)
    also have "\<dots> = map f (zip_star rs)"
      by (simp only: map_snd_enumerate)
    finally show ?thesis .
  qed
  have fstmap: "map (\<lambda>row. g (fst row)) ?rows = map g [0..<length (zip_star rs)]"
    for g :: "nat \<Rightarrow> real"
  proof -
    have "map (\<lambda>row. g (fst row)) ?rows = map g (map fst ?rows)"
      by (simp only: map_map comp_def)
    also have "\<dots> = map g [0..<length (zip_star rs)]"
      by (simp only: map_fst_enumerate) simp
    finally show ?thesis .
  qed
  show ?thesis
    unfolding get_yearly_percentiles_def Let_def percentile_rows_eq [OF ne] empty_table_def
    using sndmap [of "\<lambda>yr. percentile_value yr 95"] sndmap [of "\<lambda>yr. percentile_value yr 75"]
      sndmap [of "\<lambda>yr. percentile_value yr 50"] sndmap [of "\<lambda>yr. percentile_value yr 25"]
      sndmap [of "\<lambda>yr. percentile_value yr 5"]
      fstmap [of "\<lambda>i. initial_investment inp +
               (monthly_contribution inp * 12 + yearly_bonus inp) * real i"]
    by simp
qed

subsection \<open>The two-path run, evaluated\<close>

lemma sample_first_path:
  "perform_simulation sample_inputs sample_draws =
     Inr ((67000, [50000, 67000], Some 0), \<lambda>k. sample_draws (Suc k))"
  by (simp add: perform_simulation_def sample_inputs_def get_random_returns_eq np_mean_def
      sample_draws_def eval_nat_numeral)

lemma sample_second_path:
  "perform_simulation sample_inputs (\<lambda>k. sample_draws (Suc k)) =
     Inr ((212995000, [50000, 212995000], Some 1200), \<lambda>k. sample_draws (Suc (Suc k)))"
  by (simp add: perform_simulation_def sample_inputs_def get_random_returns_eq np_mean_def
      sample_draws_def eval_nat_numeral)

lemma sample_loop:
  "simulation_loop sample_inputs (nat 2) ([], [], []) sample_draws =
     Inr (([67000, 212995000], [[50000, 67000], [50000, 212995000]], [Some 0, Some 1200]),
          \<lambda>k. sample_draws (Suc (Suc k)))"
  by (simp add: eval_nat_numeral sample_first_path sample_second_path)

lemma sample_rotated:
  "zip_star [[50000, 67000], [50000, 212995000 :: real]]
     = [[50000, 50000], [67000, 212995000]]"
  by (simp add: zip_star.simps)

lemma sample_confidence:
  "get_confidence_levels [67000, 212995000] = Inr (5390200, 207671800)"
  by (simp add: get_confidence_levels_eq percentile_value_def)

lemma sample_table:
  "get_yearly_percentiles [[50000, 67000], [50000, 212995000]] sample_inputs =
     Inr \<lparr>year = [0, 1], c_95th = [50000, 202348600], c_75th = [50000, 159763000],
       c_median = [50000, 106531000], c_25th = [50000, 53299000], c_5th = [50000, 10713400],
       invested = [50000, 67000]\<rparr>"
  by (simp add: get_yearly_percentiles_eq sample_rotated percentile_value_def sample_inputs_def
      upt_conv_Cons)

lemma sample_run:
  "perform_monte_carlo sample_inputs 2 sample_draws =
     Inr (sample_result, \<lambda>k. sample_draws (Suc (Suc k)))"
  unfolding perform_monte_carlo_def sample_loop sample_result_def
  by (simp add: sample_confidence sample_table)

subsection \<open>The Monte Carlo run\<close>

lemma perform_monte_carlo_total:
  assumes "0 \<le> volatility inp" and "0 \<le> years inp" and "1 \<le> n"
  shows "\<exists>res src'. perform_monte_carlo inp n src = Inr (res, src')"
proof -
  from simulation_loop_total [OF assms(1) assms(2), of "nat n" "([], [], [])" src]
  obtain fbs rs mrs s1 where
    loop: "simulation_loop inp (nat n) ([], [], []) src = Inr ((fbs, rs, mrs), s1)"
    by (metis prod_cases3)
  from simulation_loop_Inr [OF loop] have "length fbs = nat n"
    by auto
  with assms(3) have "fbs \<noteq> []"
    by auto
  then show ?thesis
    unfolding perform_monte_carlo_def loop
    by (simp add: get_confidence_levels_eq get_yearly_percentiles_eq)
qed

lemma perform_monte_carlo_shape:
  assumes "perform_monte_carlo inp n src = Inr (res, src')"
  shows "1 \<le> n" and "results res \<noteq> []"
    and "\<forall>h\<in>set (results res). length h = nat (years inp) + 1 \<and> h ! 0 = initial_investment inp"
proof -
  note paths = perform_monte_carlo_paths [OF assms]
  from perform_monte_carlo_Inr [OF assms] have
    "get_confidence_levels (final_balances res) = Inr (lower_confidence res, upper_confidence res)"
    by simp
  then have "final_balances res \<noteq> []"
    by (auto simp: get_confidence_levels_eq split: if_splits)
  with paths show n: "1 \<le> n"
    by (cases "n \<le> 0") auto
  with paths show "results res \<noteq> []"
    by auto
  show "\<forall>h\<in>set (results res). length h = nat (years inp) + 1 \<and> h ! 0 = initial_investment inp"
  proof
    fix h assume "h \<in> set (results res)"
    then obtain j where j: "j < nat n" and h: "h = results res ! j"
      using paths by (metis in_set_conv_nth)
    from paths j obtain s s' where
      "perform_simulation inp s
         = Inr ((final_balances res ! j, results res ! j, mean_returns res ! j), s')"
      by blast
    from perform_simulation_Inr [OF this] h
    show "length h = nat (years inp) + 1 \<and> h ! 0 = initial_investment inp"
      by auto
  qed
qed

text \<open>
  Claim C2. For valid parameters (a horizon of at least one year, a non-negative
  volatility) and at least one path, a Monte Carlo run returns a result with exactly
  \<open>n\<close> final balances, \<open>n\<close> trajectories and \<open>n\<close> per-path mean returns; every trajectory
  has one value per year boundary, \<open>years + 1\<close> in all, the first being the initial
  investment.
\<close>

theorem monte_carlo_counts:
  assumes "1 \<le> years inp" and "1 \<le> n" and "0 \<le> volatility inp"
  shows "\<exists>res src'.
           perform_monte_carlo inp n src = Inr (res, src')
           \<and> length (final_balances res) = nat n
           \<and> length (results res) = nat n
           \<and> length (mean_returns res) = nat n
           \<and> (\<forall>h\<in>set (results res).
                 length h = nat (years inp) + 1 \<and> h ! 0 = initial_investment inp)"
proof -
  from assms(1) have "0 \<le> years inp"
    by simp
  from perform_monte_carlo_total [OF assms(3) this assms(2), of src]
  obtain res src' where run: "perform_monte_carlo inp n src = Inr (res, src')"
    by blast
  from perform_monte_carlo_paths [OF run] perform_monte_carlo_shape(3) [OF run] run
  show ?thesis
    by blast
qed

theorem monte_carlo_counts_witness:
  "1 \<le> years sample_inputs \<and> (1 :: int) \<le> 2 \<and> 0 \<le> volatility sample_inputs
   \<and> (\<exists>res src'.
         perform_monte_carlo sample_inputs 2 sample_draws = Inr (res, src')
         \<and> length (final_balances res) = 2
         \<and> length (results res) = 2
         \<and> length (mean_returns res) = 2
         \<and> (\<forall>h\<in>set (results res). length h = 2 \<and> h ! 0 = 50000))"
proof -
  have h1: "1 \<le> years sample_inputs" and h3: "0 \<le> volatility sample_inputs"
    by (simp_all add: sample_inputs_def)
  have h2: "(1 :: int) \<le> 2"
    by simp
  have y: "nat (years sample_inputs) + 1 = 2" and i: "initial_investment sample_inputs = 50000"
    by (simp_all add: sample_inputs_def)
  from monte_carlo_counts [OF h1 h2 h3, of sample_draws] have
    "\<exists>res src'.
         perform_monte_carlo sample_inputs 2 sample_draws = Inr (res, src')
         \<and> length (final_balances res) = 2
         \<and> length (results res) = 2
         \<and> length (mean_returns res) = 2
         \<and> (\<forall>h\<in>set (results res). length h = 2 \<and> h ! 0 = 50000)"
    unfolding y i by simp
  with h1 h2 h3 show ?thesis
    by blast
qed

text \<open>
  Claim C9. For a horizon of at least one year, the mean return the path simulator
  reports is the arithmetic average of the multipliers of the path, minus 1, times 100.
\<close>

theorem mean_return_percentage:
  assumes "1 \<le> years inp"
    and "get_random_returns (years inp) (estimated_roi inp) (volatility inp) src
           = Inr (returns, src')"
  shows "\<exists>balance history.
           perform_simulation inp src =
             Inr ((balance, history,
                   Some ((sum_list returns / real_of_int (years inp) - 1) * 100)), src')"
proof -
  have len: "length returns = nat (years inp)"
    using assms(2) by (rule get_random_returns_length)
  with assms(1) have "returns \<noteq> []"
    by auto
  moreover have "real (length returns) = real_of_int (years inp)"
    using len assms(1) by simp
  ultimately have "map_option (\<lambda>m. (m - 1) * 100) (np_mean returns)
      = Some ((sum_list returns / real_of_int (years inp) - 1) * 100)"
    by (simp add: np_mean_def)
  with perform_simulation_trace [OF assms(2)] show ?thesis
    by auto
qed

theorem mean_return_percentage_witness:
  "1 \<le> years sample_inputs
   \<and> get_random_returns (years sample_inputs) (estimated_roi sample_inputs)
        (volatility sample_inputs) (\<lambda>k. sample_draws (Suc k))
       = Inr ([13], \<lambda>k. sample_draws (Suc (Suc k)))
   \<and> (\<exists>balance history.
         perform_simulation sample_inputs (\<lambda>k. sample_draws (Suc k)) =
           Inr ((balance, history, Some 1200), \<lambda>k. sample_draws (Suc (Suc k))))"
proof -
  have h1: "1 \<le> years sample_inputs"
    by (simp add: sample_inputs_def)
  have h2: "get_random_returns (years sample_inputs) (estimated_roi sample_inputs)
        (volatility sample_inputs) (\<lambda>k. sample_draws (Suc k))
       = Inr ([13], \<lambda>k. sample_draws (Suc (Suc k)))"
    by (simp add: sample_inputs_def sample_draws_def get_random_returns_eq)
  from mean_return_percentage [OF h1 h2] have
    "\<exists>balance history.
         perform_simulation sample_inputs (\<lambda>k. sample_draws (Suc k)) =
           Inr ((balance, history, Some 1200), \<lambda>k. sample_draws (Suc (Suc k)))"
    by (simp add: sample_inputs_def)
  with h1 h2 show ?thesis
    by blast
qed

text \<open>
  Claim C10. For a horizon of at least one year, the final balance the path simulator
  returns is the last element of the trajectory it returns, the one at index \<open>years\<close>;
  so in the result of the aggregator the final balance of every path is the value of
  its trajectory at index \<open>years\<close>.
\<close>

theorem final_balance_is_last:
  assumes "1 \<le> years inp"
  shows "(perform_simulation inp src = Inr ((balance, history, mean_return), src')
            \<longrightarrow> balance = last history \<and> balance = history ! nat (years inp))
         \<and> (perform_monte_carlo inp n src = Inr (res, src'')
            \<longrightarrow> length (final_balances res) = length (results res)
                \<and> (\<forall>k<length (results res).
                      final_balances res ! k = results res ! k ! nat (years inp)))"
proof (intro conjI impI)
  assume run: "perform_simulation inp src = Inr ((balance, history, mean_return), src')"
  from perform_simulation_Inr [OF run] obtain ext where
    h: "history = initial_investment inp # ext" and b: "balance = last history"
    and len: "length ext = nat (years inp)"
    by blast
  show "balance = last history"
    by (rule b)
  have "history \<noteq> []" "length history - 1 = nat (years inp)"
    using h len by simp_all
  then show "balance = history ! nat (years inp)"
    using b by (simp add: last_conv_nth)
next
  assume run: "perform_monte_carlo inp n src = Inr (res, src'')"
  note paths = perform_monte_carlo_paths [OF run]
  from paths show "length (final_balances res) = length (results res)"
    by simp
  show "\<forall>k<length (results res). final_balances res ! k = results res ! k ! nat (years inp)"
  proof (intro allI impI)
    fix k assume "k < length (results res)"
    with paths obtain s s' where
      p: "perform_simulation inp s
            = Inr ((final_balances res ! k, results res ! k, mean_returns res ! k), s')"
      by auto
    from perform_simulation_Inr [OF p] obtain ext where
      h: "results res ! k = initial_investment inp # ext"
      and b: "final_balances res ! k = last (results res ! k)"
      and len: "length ext = nat (years inp)"
      by blast
    have "results res ! k \<noteq> []" "length (results res ! k) - 1 = nat (years inp)"
      using h len by simp_all
    then show "final_balances res ! k = results res ! k ! nat (years inp)"
      using b by (simp add: last_conv_nth)
  qed
qed

theorem final_balance_is_last_witness:
  "1 \<le> years sample_inputs
   \<and> perform_simulation sample_inputs sample_draws
       = Inr ((67000, [50000, 67000], Some 0), \<lambda>k. sample_draws (Suc k))
   \<and> (67000 :: real) = last [50000, 67000] \<and> (67000 :: real) = [50000, 67000] ! 1
   \<and> perform_monte_carlo sample_inputs 2 sample_draws
       = Inr (sample_result, \<lambda>k. sample_draws (Suc (Suc k)))
   \<and> length (final_balances sample_result) = length (results sample_result)
   \<and> final_balances sample_result ! 0 = results sample_result ! 0 ! 1
   \<and> final_balances sample_result ! 1 = results sample_result ! 1 ! 1"
proof -
  have h1: "1 \<le> years sample_inputs"
    by (simp add: sample_inputs_def)
  have y: "nat (years sample_inputs) = 1"
    by (simp add: sample_inputs_def)
  have len: "0 < length (results sample_result)" "1 < length (results sample_result)"
    by (simp_all add: sample_result_def)
  from final_balance_is_last [OF h1, of sample_draws 67000 "[50000, 67000]" "Some 0"
      "\<lambda>k. sample_draws (Suc k)" 2 sample_result "\<lambda>k. sample_draws (Suc (Suc k))"]
  show ?thesis
    unfolding y using h1 sample_first_path sample_run len by blast
qed

subsection \<open>The confidence interval of a run\<close>

text \<open>
  Claim C5. For a non-empty collection of final balances the confidence interval has
  the 2.5th percentile as its lower bound and the 97.5th percentile as its upper bound,
  both by linear interpolation, and the median of the collection lies between the two.
  So it is in every result the aggregator returns: the collection of final balances is
  not empty, \<open>lower_confidence\<close> is its 2.5th percentile, \<open>upper_confidence\<close> its 97.5th,
  and its median lies between them.
\<close>

theorem confidence_interval:
  "(fbs \<noteq> [] \<longrightarrow>
      (\<exists>lower upper m.
          get_confidence_levels fbs = Inr (lower, upper)
          \<and> np_percentile fbs 2.5 = Inr lower
          \<and> np_percentile fbs 97.5 = Inr upper
          \<and> np_median fbs = Some m
          \<and> lower \<le> m \<and> m \<le> upper))
   \<and> (perform_monte_carlo inp n src = Inr (res, src') \<longrightarrow>
        final_balances res \<noteq> []
        \<and> np_percentile (final_balances res) 2.5 = Inr (lower_confidence res)
        \<and> np_percentile (final_balances res) 97.5 = Inr (upper_confidence res)
        \<and> (\<exists>m. np_median (final_balances res) = Some m
               \<and> lower_confidence res \<le> m \<and> m \<le> upper_confidence res))"
proof -
  have interval: "get_confidence_levels xs
                    = Inr (percentile_value xs 2.5, percentile_value xs 97.5)
      \<and> np_percentile xs 2.5 = Inr (percentile_value xs 2.5)
      \<and> np_percentile xs 97.5 = Inr (percentile_value xs 97.5)
      \<and> np_median xs = Some (percentile_value xs 50)
      \<and> percentile_value xs 2.5 \<le> percentile_value xs 50
      \<and> percentile_value xs 50 \<le> percentile_value xs 97.5"
    if ne: "xs \<noteq> []" for xs
  proof -
    have "percentile_value xs 2.5 \<le> percentile_value xs 50"
      using ne by (intro percentile_value_mono) simp_all
    moreover have "percentile_value xs 50 \<le> percentile_value xs 97.5"
      using ne by (intro percentile_value_mono) simp_all
    moreover have "np_median xs = Some (percentile_value xs 50)"
      using ne by (rule percentile_50_is_median)
    moreover have "get_confidence_levels xs
                     = Inr (percentile_value xs 2.5, percentile_value xs 97.5)"
      using ne by (simp add: get_confidence_levels_eq)
    moreover have "np_percentile xs 2.5 = Inr (percentile_value xs 2.5)"
      "np_percentile xs 97.5 = Inr (percentile_value xs 97.5)"
      using ne by (simp_all add: np_percentile_eq)
    ultimately show ?thesis by blast
  qed
  have first: "\<exists>lower upper m.
          get_confidence_levels fbs = Inr (lower, upper)
          \<and> np_percentile fbs 2.5 = Inr lower
          \<and> np_percentile fbs 97.5 = Inr upper
          \<and> np_median fbs = Some m
          \<and> lower \<le> m \<and> m \<le> upper"
    if "fbs \<noteq> []"
    using interval [OF that] by blast
  have second: "final_balances res \<noteq> []
        \<and> np_percentile (final_balances res) 2.5 = Inr (lower_confidence res)
        \<and> np_percentile (final_balances res) 97.5 = Inr (upper_confidence res)
        \<and> (\<exists>m. np_median (final_balances res) = Some m
               \<and> lower_confidence res \<le> m \<and> m \<le> upper_confidence res)"
    if run: "perform_monte_carlo inp n src = Inr (res, src')"
  proof -
    from perform_monte_carlo_Inr [OF run] have conf:
      "get_confidence_levels (final_balances res)
         = Inr (lower_confidence res, upper_confidence res)"
      by simp
    then have ne: "final_balances res \<noteq> []"
      by (auto simp: get_confidence_levels_eq split: if_splits)
    note i = interval [OF ne]
    from conf i have bounds:
      "lower_confidence res = percentile_value (final_balances res) 2.5"
      "upper_confidence res = percentile_value (final_balances res) 97.5"
      by simp_all
    show ?thesis
      unfolding bounds using ne i by blast
  qed
  from first second show ?thesis
    by blast
qed

theorem confidence_interval_witness:
  "[1, 5, 2, 4] \<noteq> ([] :: real list)
   \<and> get_confidence_levels [1, 5, 2, 4] = Inr (1.075, 4.925)
   \<and> np_median [1, 5, 2, 4] = Some 3
   \<and> (1.075 :: real) \<le> 3 \<and> (3 :: real) \<le> 4.925
   \<and> perform_monte_carlo sample_inputs 2 sample_draws
       = Inr (sample_result, \<lambda>k. sample_draws (Suc (Suc k)))
   \<and> final_balances sample_result = [67000, 212995000]
   \<and> np_percentile (final_balances sample_result) 2.5 = Inr (lower_confidence sample_result)
   \<and> np_percentile (final_balances sample_result) 97.5 = Inr (upper_confidence sample_result)
   \<and> lower_confidence sample_result = 5390200
   \<and> upper_confidence sample_result = 207671800
   \<and> np_median (final_balances sample_result) = Some 106531000
   \<and> lower_confidence sample_result \<le> 106531000
   \<and> 106531000 \<le> upper_confidence sample_result"
proof -
  have h: "[1, 5, 2, 4] \<noteq> ([] :: real list)"
    by simp
  note inst = confidence_interval [of "[1, 5, 2, 4]" sample_inputs 2 sample_draws
      sample_result "\<lambda>k. sample_draws (Suc (Suc k))"]
  from inst h obtain lower upper m where
    "get_confidence_levels [1, 5, 2, 4] = Inr (lower, upper)"
    "np_median [1, 5, 2, 4] = Some m" "lower \<le> m" "m \<le> upper"
    by blast
  moreover have "get_confidence_levels [1, 5, 2, 4] = Inr (1.075, 4.925)"
    by (simp add: get_confidence_levels_eq percentile_value_def Let_def)
  moreover have "np_median [1, 5, 2, 4] = Some 3"
    by (simp add: np_median_def Let_def)
  ultimately have first: "get_confidence_levels [1, 5, 2, 4] = Inr (1.075, 4.925)
     \<and> np_median [1, 5, 2, 4] = Some 3 \<and> (1.075 :: real) \<le> 3 \<and> (3 :: real) \<le> 4.925"
    by simp
  from inst sample_run obtain m where run:
    "np_percentile (final_balances sample_result) 2.5 = Inr (lower_confidence sample_result)"
    "np_percentile (final_balances sample_result) 97.5 = Inr (upper_confidence sample_result)"
    "np_median (final_balances sample_result) = Some m"
    "lower_confidence sample_result \<le> m" "m \<le> upper_confidence sample_result"
    by blast
  have med: "np_median (final_balances sample_result) = Some 106531000"
    by (simp add: sample_result_def np_median_def Let_def)
  with run have m: "m = 106531000"
    by simp
  have vals: "final_balances sample_result = [67000, 212995000]"
    "lower_confidence sample_result = 5390200" "upper_confidence sample_result = 207671800"
    by (simp_all add: sample_result_def)
  show ?thesis
    using h first sample_run run(1,2) run(4,5) [unfolded m] med vals by blast
qed

subsection \<open>The columns of the table\<close>

lemma monte_carlo_rotated:
  assumes "perform_monte_carlo inp n src = Inr (res, src')"
  shows "zip_star (results res)
           = map (\<lambda>i. map (\<lambda>r. r ! i) (results res)) [0..<nat (years inp) + 1]"
proof -
  from perform_monte_carlo_shape(3) [OF assms]
  have "\<forall>h\<in>set (results res). length h = nat (years inp) + 1"
    by blast
  with perform_monte_carlo_shape(2) [OF assms] show ?thesis
    by (rule zip_star_eq)
qed

text \<open>
  Claim C3. The `invested' column of the yearly percentile table does not depend on
  the trajectories, hence not on the random draws: whatever the trajectories, its entry
  for year index \<open>i\<close> is
  \<open>initial_investment + (monthly_contribution * 12 + yearly_bonus) * i\<close>; and in the
  result of a Monte Carlo run, whatever the number of paths and the source, it is that
  sequence for the years \<open>0\<close> to \<open>years\<close>.
\<close>

theorem invested_column:
  "(\<exists>t. get_yearly_percentiles rs inp = Inr t
        \<and> length (invested t) = length (year t)
        \<and> (\<forall>i<length (invested t).
              year t ! i = i
              \<and> invested t ! i = initial_investment inp
                   + (monthly_contribution inp * 12 + yearly_bonus inp) * real i))
   \<and> (perform_monte_carlo inp n src = Inr (res, src')
        \<longrightarrow> invested (yearly_percentiles res)
              = map (\<lambda>i. initial_investment inp
                     + (monthly_contribution inp * 12 + yearly_bonus inp) * real i)
                  [0..<nat (years inp) + 1])"
proof (intro conjI impI)
  show "\<exists>t. get_yearly_percentiles rs inp = Inr t
        \<and> length (invested t) = length (year t)
        \<and> (\<forall>i<length (invested t).
              year t ! i = i
              \<and> invested t ! i = initial_investment inp
                   + (monthly_contribution inp * 12 + yearly_bonus inp) * real i)"
    by (simp add: get_yearly_percentiles_eq)
next
  assume run: "perform_monte_carlo inp n src = Inr (res, src')"
  have column: "invested t
      = map (\<lambda>i. initial_investment inp
                     + (monthly_contribution inp * 12 + yearly_bonus inp) * real i)
          [0..<length (zip_star (results res))]"
    if "get_yearly_percentiles (results res) inp = Inr t" for t
    using that unfolding get_yearly_percentiles_eq by auto
  from perform_monte_carlo_Inr [OF run]
  have "get_yearly_percentiles (results res) inp = Inr (yearly_percentiles res)"
    by simp
  then have "invested (yearly_percentiles res)
      = map (\<lambda>i. initial_investment inp
                     + (monthly_contribution inp * 12 + yearly_bonus inp) * real i)
          [0..<length (zip_star (results res))]"
    by (rule column)
  moreover have "length (zip_star (results res)) = nat (years inp) + 1"
    unfolding monte_carlo_rotated [OF run] by simp
  ultimately show "invested (yearly_percentiles res)
              = map (\<lambda>i. initial_investment inp
                     + (monthly_contribution inp * 12 + yearly_bonus inp) * real i)
                  [0..<nat (years inp) + 1]"
    by simp
qed

theorem invested_column_witness:
  "get_yearly_percentiles (results sample_result) sample_inputs
       = Inr (yearly_percentiles sample_result)
   \<and> year (yearly_percentiles sample_result) ! 1 = 1
   \<and> invested (yearly_percentiles sample_result) ! 1 = 50000 + (1000 * 12 + 5000) * real 1
   \<and> perform_monte_carlo sample_inputs 2 sample_draws
       = Inr (sample_result, \<lambda>k. sample_draws (Suc (Suc k)))
   \<and> invested (yearly_percentiles sample_result) = [50000, 50000 + (1000 * 12 + 5000) * 1]"
proof -
  have tbl: "get_yearly_percentiles (results sample_result) sample_inputs
       = Inr (yearly_percentiles sample_result)"
    using sample_table by (simp add: sample_result_def)
  have len: "1 < length (invested (yearly_percentiles sample_result))"
    by (simp add: sample_result_def)
  have col: "map (\<lambda>i. initial_investment sample_inputs
                     + (monthly_contribution sample_inputs * 12 + yearly_bonus sample_inputs)
                       * real i) [0..<nat (years sample_inputs) + 1]
          = [50000, 50000 + (1000 * 12 + 5000) * 1]"
    by (simp add: sample_inputs_def upt_conv_Cons)
  have par: "initial_investment sample_inputs = 50000"
    "monthly_contribution sample_inputs = 1000" "yearly_bonus sample_inputs = 5000"
    by (simp_all add: sample_inputs_def)
  note inst = invested_column [of "results sample_result" sample_inputs 2 sample_draws
      sample_result "\<lambda>k. sample_draws (Suc (Suc k))", unfolded tbl]
  from inst have rows: "\<forall>i<length (invested (yearly_percentiles sample_result)).
       year (yearly_percentiles sample_result) ! i = i
       \<and> invested (yearly_percentiles sample_result) ! i
           = initial_investment sample_inputs
             + (monthly_contribution sample_inputs * 12 + yearly_bonus sample_inputs) * real i"
    by blast
  from rows len have "year (yearly_percentiles sample_result) ! 1 = 1
      \<and> invested (yearly_percentiles sample_result) ! 1
          = initial_investment sample_inputs
            + (monthly_contribution sample_inputs * 12 + yearly_bonus sample_inputs) * real 1"
    by blast
  then have one: "year (yearly_percentiles sample_result) ! 1 = 1
      \<and> invested (yearly_percentiles sample_result) ! 1 = 50000 + (1000 * 12 + 5000) * real 1"
    unfolding par .
  from inst sample_run
  have "invested (yearly_percentiles sample_result)
          = map (\<lambda>i. initial_investment sample_inputs
                     + (monthly_contribution sample_inputs * 12 + yearly_bonus sample_inputs)
                       * real i) [0..<nat (years sample_inputs) + 1]"
    by blast
  then have "invested (yearly_percentiles sample_result)
               = [50000, 50000 + (1000 * 12 + 5000) * 1]"
    unfolding col .
  with one show ?thesis
    using tbl sample_run by blast
qed

text \<open>
  Claim C4. For a non-empty collection of trajectories of one length \<open>L\<close> the table has
  \<open>L\<close> rows; in row \<open>i\<close> the five entries are the 5th, 25th, 50th, 75th and 95th
  percentiles of the balances of all paths at year \<open>i\<close>, and they are in that order.
\<close>

theorem percentile_rows_ordered:
  assumes "rs \<noteq> []" and "\<forall>r\<in>set rs. length r = L"
  shows "\<exists>t. get_yearly_percentiles rs inp = Inr t
           \<and> length (year t) = L
           \<and> (\<forall>i<L.
                 np_percentile (map (\<lambda>r. r ! i) rs) 5 = Inr (c_5th t ! i)
                 \<and> np_percentile (map (\<lambda>r. r ! i) rs) 25 = Inr (c_25th t ! i)
                 \<and> np_percentile (map (\<lambda>r. r ! i) rs) 50 = Inr (c_median t ! i)
                 \<and> np_percentile (map (\<lambda>r. r ! i) rs) 75 = Inr (c_75th t ! i)
                 \<and> np_percentile (map (\<lambda>r. r ! i) rs) 95 = Inr (c_95th t ! i)
                 \<and> c_5th t ! i \<le> c_25th t ! i
                 \<and> c_25th t ! i \<le> c_median t ! i
                 \<and> c_median t ! i \<le> c_75th t ! i
                 \<and> c_75th t ! i \<le> c_95th t ! i)"
proof -
  note rot = zip_star_eq [OF assms]
  have ne: "map (\<lambda>r. r ! i) rs \<noteq> []" for i
    using assms(1) by simp
  have ord: "percentile_value (map (\<lambda>r. r ! i) rs) p \<le> percentile_value (map (\<lambda>r. r ! i) rs) q"
    if "0 \<le> p" "p \<le> q" "q \<le> 100" for i p q
    using ne that by (rule percentile_value_mono)
  show ?thesis
    unfolding get_yearly_percentiles_eq rot
    using ne by (simp add: np_percentile_eq ord)
qed

theorem percentile_rows_ordered_witness:
  "results sample_result \<noteq> [] \<and> list_all (\<lambda>r. length r = 2) (results sample_result)
   \<and> get_yearly_percentiles (results sample_result) sample_inputs
       = Inr (yearly_percentiles sample_result)
   \<and> c_5th (yearly_percentiles sample_result) ! 1
         \<le> c_25th (yearly_percentiles sample_result) ! 1
   \<and> c_25th (yearly_percentiles sample_result) ! 1
         \<le> c_median (yearly_percentiles sample_result) ! 1
   \<and> c_median (yearly_percentiles sample_result) ! 1
         \<le> c_75th (yearly_percentiles sample_result) ! 1
   \<and> c_75th (yearly_percentiles sample_result) ! 1
         \<le> c_95th (yearly_percentiles sample_result) ! 1"
proof -
  have h1: "results sample_result \<noteq> []"
    and h2: "\<forall>r\<in>set (results sample_result). length r = 2"
    by (simp_all add: sample_result_def)
  have tbl: "get_yearly_percentiles (results sample_result) sample_inputs
       = Inr (yearly_percentiles sample_result)"
    using sample_table by (simp add: sample_result_def)
  from percentile_rows_ordered [OF h1 h2, of sample_inputs] obtain t where
    t: "get_yearly_percentiles (results sample_result) sample_inputs = Inr t"
    and rows: "\<forall>i<2. c_5th t ! i \<le> c_25th t ! i \<and> c_25th t ! i \<le> c_median t ! i
                 \<and> c_median t ! i \<le> c_75th t ! i \<and> c_75th t ! i \<le> c_95th t ! i"
    by blast
  from t tbl have "t = yearly_percentiles sample_result"
    by simp
  moreover have "(1 :: nat) < 2"
    by simp
  ultimately have "c_5th (yearly_percentiles sample_result) ! 1
         \<le> c_25th (yearly_percentiles sample_result) ! 1
   \<and> c_25th (yearly_percentiles sample_result) ! 1
         \<le> c_median (yearly_percentiles sample_result) ! 1
   \<and> c_median (yearly_percentiles sample_result) ! 1
         \<le> c_75th (yearly_percentiles sample_result) ! 1
   \<and> c_75th (yearly_percentiles sample_result) ! 1
         \<le> c_95th (yearly_percentiles sample_result) ! 1"
    using rows by blast
  moreover have "list_all (\<lambda>r. length r = 2) (results sample_result)"
    using h2 by (simp add: list_all_iff)
  ultimately show ?thesis
    using h1 tbl by blast
qed

subsection \<open>A single path\<close>

lemma single_table:
  "get_yearly_percentiles [h] inp =
     Inr \<lparr>year = [0..<length h], c_95th = h, c_75th = h, c_median = h, c_25th = h,
          c_5th = h,
          invested = map (\<lambda>i. initial_investment inp +
               (monthly_contribution inp * 12 + yearly_bonus inp) * real i) [0..<length h]\<rparr>"
proof -
  have rot: "zip_star [h] = map (\<lambda>i. [h ! i]) [0..<length h]"
    using zip_star_eq [of "[h]" "length h"] by simp
  have col: "map (\<lambda>yr. percentile_value yr q) (zip_star [h]) = h" for q
    unfolding rot by (simp add: comp_def percentile_value_singleton map_nth)
  show ?thesis
    unfolding get_yearly_percentiles_eq col by (simp add: rot)
qed

lemma single_run:
  "perform_monte_carlo sample_inputs 1 (\<lambda>k. sample_draws (Suc k)) =
     Inr (single_result, \<lambda>k. sample_draws (Suc (Suc k)))"
proof -
  have "simulation_loop sample_inputs (nat 1) ([], [], []) (\<lambda>k. sample_draws (Suc k)) =
     Inr (([212995000], [[50000, 212995000]], [Some 1200]), \<lambda>k. sample_draws (Suc (Suc k)))"
    by (simp add: sample_second_path)
  moreover have "get_confidence_levels [212995000] = Inr (212995000, 212995000)"
    by (simp add: get_confidence_levels_eq percentile_value_singleton)
  moreover have "get_yearly_percentiles [[50000, 212995000]] sample_inputs =
      Inr (yearly_percentiles single_result)"
    by (simp add: single_table single_result_def sample_inputs_def upt_conv_Cons)
  ultimately show ?thesis
    unfolding perform_monte_carlo_def by (simp add: single_result_def)
qed

text \<open>
  Claim C8. The table of a single trajectory repeats it: every percentile column (5th,
  25th, median, 75th, 95th) is the trajectory itself, year by year; so it is in the result
  of a run with exactly one path.
\<close>

theorem single_path_table:
  "(\<exists>t. get_yearly_percentiles [h] inp = Inr t
        \<and> year t = [0..<length h]
        \<and> c_5th t = h \<and> c_25th t = h \<and> c_median t = h \<and> c_75th t = h \<and> c_95th t = h)
   \<and> (perform_monte_carlo inp 1 src = Inr (res, src')
        \<longrightarrow> (\<exists>path. results res = [path]
              \<and> c_5th (yearly_percentiles res) = path
              \<and> c_25th (yearly_percentiles res) = path
              \<and> c_median (yearly_percentiles res) = path
              \<and> c_75th (yearly_percentiles res) = path
              \<and> c_95th (yearly_percentiles res) = path))"
proof (intro conjI impI)
  show "\<exists>t. get_yearly_percentiles [h] inp = Inr t
        \<and> year t = [0..<length h]
        \<and> c_5th t = h \<and> c_25th t = h \<and> c_median t = h \<and> c_75th t = h \<and> c_95th t = h"
    by (simp add: single_table)
next
  assume run: "perform_monte_carlo inp 1 src = Inr (res, src')"
  from perform_monte_carlo_paths [OF run] have "length (results res) = 1"
    by simp
  then obtain path where path: "results res = [path]"
    by (cases "results res") auto
  have columns: "c_5th t = path \<and> c_25th t = path \<and> c_median t = path
                  \<and> c_75th t = path \<and> c_95th t = path"
    if "get_yearly_percentiles [path] inp = Inr t" for t
    using that unfolding single_table by auto
  from perform_monte_carlo_Inr [OF run] path
  have "get_yearly_percentiles [path] inp = Inr (yearly_percentiles res)"
    by simp
  then have "c_5th (yearly_percentiles res) = path
              \<and> c_25th (yearly_percentiles res) = path
              \<and> c_median (yearly_percentiles res) = path
              \<and> c_75th (yearly_percentiles res) = path
              \<and> c_95th (yearly_percentiles res) = path"
    by (rule columns)
  with path show "\<exists>path. results res = [path]
              \<and> c_5th (yearly_percentiles res) = path
              \<and> c_25th (yearly_percentiles res) = path
              \<and> c_median (yearly_percentiles res) = path
              \<and> c_75th (yearly_percentiles res) = path
              \<and> c_95th (yearly_percentiles res) = path"
    by blast
qed

theorem single_path_table_witness:
  "perform_monte_carlo sample_inputs 1 (\<lambda>k. sample_draws (Suc k))
     = Inr (single_result, \<lambda>k. sample_draws (Suc (Suc k)))
   \<and> results single_result = [[50000, 212995000]]
   \<and> c_5th (yearly_percentiles single_result) = [50000, 212995000]
   \<and> c_25th (yearly_percentiles single_result) = [50000, 212995000]
   \<and> c_median (yearly_percentiles single_result) = [50000, 212995000]
   \<and> c_75th (yearly_percentiles single_result) = [50000, 212995000]
   \<and> c_95th (yearly_percentiles single_result) = [50000, 212995000]"
proof -
  have r: "results single_result = [[50000, 212995000]]"
    by (simp add: single_result_def)
  from single_path_table [of "[50000, 212995000]" sample_inputs "\<lambda>k. sample_draws (Suc k)" single_result
      "\<lambda>k. sample_draws (Suc (Suc k))"] single_run
  have "\<exists>path. results single_result = [path]
              \<and> c_5th (yearly_percentiles single_result) = path
              \<and> c_25th (yearly_percentiles single_result) = path
              \<and> c_median (yearly_percentiles single_result) = path
              \<and> c_75th (yearly_percentiles single_result) = path
              \<and> c_95th (yearly_percentiles single_result) = path"
    by blast
  with r single_run show ?thesis
    by auto
qed

subsection \<open>Degenerate and out-of-domain parameters\<close>

lemma no_paths_fails: "n \<le> 0 \<Longrightarrow> perform_monte_carlo inp n src = Inl IndexError"
  by (simp add: perform_monte_carlo_def get_confidence_levels_eq)

lemma no_horizon_path:
  assumes "years inp = 0" and "0 \<le> volatility inp"
  shows "perform_simulation inp src
           = Inr ((initial_investment inp, [initial_investment inp], None), src)"
  using assms by (simp add: perform_simulation_def get_random_returns_eq np_mean_def)

lemma no_horizon_loop:
  assumes "years inp = 0" and "0 \<le> volatility inp"
  shows "simulation_loop inp k (fbs, rs, mrs) src =
     Inr ((fbs @ replicate k (initial_investment inp),
           rs @ replicate k [initial_investment inp],
           mrs @ replicate k None), src)"
proof (induction k arbitrary: fbs rs mrs)
  case 0
  show ?case by simp
next
  case (Suc k)
  show ?case
    by (simp add: no_horizon_path [OF assms] Suc.IH replicate_app_Cons_same)
qed

lemma zip_star_replicate:
  assumes "0 < k"
  shows "zip_star (replicate k [x]) = [replicate k x]"
  using assms zip_star_eq [of "replicate k [x]" 1] by simp

text \<open>
  Claim C6, as the code has it. Without a path (\<open>n \<le> 0\<close>) the aggregator fails: the
  percentile of the empty collection of final balances raises \<^verbatim>\<open>IndexError\<close>. With a
  horizon of zero years, at least one path and a non-negative volatility it returns:
  every trajectory is the initial investment alone, every final balance and both
  confidence bounds are the initial investment, every mean return is NaN, and the table
  has the single row of year 0.
\<close>

theorem degenerate_runs:
  "(n \<le> 0 \<longrightarrow> perform_monte_carlo inp n src = Inl IndexError)
   \<and> (years inp = 0 \<and> 1 \<le> n \<and> 0 \<le> volatility inp \<longrightarrow>
        perform_monte_carlo inp n src =
          Inr (\<lparr>final_balances = replicate (nat n) (initial_investment inp),
                results = replicate (nat n) [initial_investment inp],
                yearly_percentiles =
                  \<lparr>year = [0],
                   c_95th = [initial_investment inp],
                   c_75th = [initial_investment inp],
                   c_median = [initial_investment inp],
                   c_25th = [initial_investment inp],
                   c_5th = [initial_investment inp],
                   invested = [initial_investment inp]\<rparr>,
                lower_confidence = initial_investment inp,
                upper_confidence = initial_investment inp,
                mean_returns = replicate (nat n) None\<rparr>, src))"
proof (intro conjI impI)
  assume "n \<le> 0"
  then show "perform_monte_carlo inp n src = Inl IndexError"
    by (rule no_paths_fails)
next
  assume a: "years inp = 0 \<and> 1 \<le> n \<and> 0 \<le> volatility inp"
  then have k: "0 < nat n"
    by simp
  let ?x = "initial_investment inp"
  have loop: "simulation_loop inp (nat n) ([], [], []) src =
     Inr ((replicate (nat n) ?x, replicate (nat n) [?x], replicate (nat n) None), src)"
    using no_horizon_loop [of inp "nat n" "[]" "[]" "[]" src] a by simp
  have conf: "get_confidence_levels (replicate (nat n) ?x) = Inr (?x, ?x)"
    using k by (simp add: get_confidence_levels_eq percentile_value_replicate)
  have tbl: "get_yearly_percentiles (replicate (nat n) [?x]) inp =
     Inr \<lparr>year = [0], c_95th = [?x], c_75th = [?x], c_median = [?x], c_25th = [?x],
          c_5th = [?x], invested = [?x]\<rparr>"
    using k by (simp add: get_yearly_percentiles_eq zip_star_replicate percentile_value_replicate)
  show "perform_monte_carlo inp n src =
          Inr (\<lparr>final_balances = replicate (nat n) ?x,
                results = replicate (nat n) [?x],
                yearly_percentiles =
                  \<lparr>year = [0], c_95th = [?x], c_75th = [?x], c_median = [?x],
                   c_25th = [?x], c_5th = [?x], invested = [?x]\<rparr>,
                lower_confidence = ?x,
                upper_confidence = ?x,
                mean_returns = replicate (nat n) None\<rparr>, src)"
    unfolding perform_monte_carlo_def loop by (simp add: conf tbl)
qed

theorem degenerate_runs_witness:
  "(0 :: int) \<le> 0
   \<and> perform_monte_carlo scenario 0 sample_draws = Inl IndexError
   \<and> years no_horizon = 0 \<and> (1 :: int) \<le> 2 \<and> 0 \<le> volatility no_horizon
   \<and> perform_monte_carlo no_horizon 2 sample_draws =
        Inr (\<lparr>final_balances = [50000, 50000],
              results = [[50000], [50000]],
              yearly_percentiles =
                \<lparr>year = [0], c_95th = [50000], c_75th = [50000], c_median = [50000],
                 c_25th = [50000], c_5th = [50000], invested = [50000]\<rparr>,
              lower_confidence = 50000,
              upper_confidence = 50000,
              mean_returns = [None, None]\<rparr>, sample_draws)"
proof -
  have h: "years no_horizon = 0 \<and> (1 :: int) \<le> 2 \<and> 0 \<le> volatility no_horizon"
    by (simp add: no_horizon_def)
  have i: "initial_investment no_horizon = 50000"
    by (simp add: no_horizon_def)
  have r: "replicate (nat 2) x = [x, x]" for x :: 'a
    by (simp add: eval_nat_numeral)
  from degenerate_runs [of 0 scenario sample_draws]
  have "perform_monte_carlo scenario 0 sample_draws = Inl IndexError"
    by simp
  moreover from degenerate_runs [of 2 no_horizon sample_draws, unfolded i r] h
  have "perform_monte_carlo no_horizon 2 sample_draws =
        Inr (\<lparr>final_balances = [50000, 50000],
              results = [[50000], [50000]],
              yearly_percentiles =
                \<lparr>year = [0], c_95th = [50000], c_75th = [50000], c_median = [50000],
                 c_25th = [50000], c_5th = [50000], invested = [50000]\<rparr>,
              lower_confidence = 50000,
              upper_confidence = 50000,
              mean_returns = [None, None]\<rparr>, sample_draws)"
    by blast
  ultimately show ?thesis
    using h by simp
qed

text \<open>
  Claim C6 as stated fails without a path: for \<open>n = 0\<close> the aggregator raises
  \<^verbatim>\<open>IndexError\<close> instead of returning empty collections.
\<close>

theorem no_paths_counterexample:
  "perform_monte_carlo scenario 0 sample_draws = Inl IndexError"
  by (simp add: perform_monte_carlo_def get_confidence_levels_def np_percentile_def)

lemma overdrawn_path:
  "perform_simulation overdrawn sample_draws =
     Inr ((- 33000, [- 50000, - 33000], Some 0), \<lambda>k. sample_draws (Suc k))"
  by (simp add: perform_simulation_def overdrawn_def get_random_returns_eq np_mean_def
      sample_draws_def eval_nat_numeral)

text \<open>
  Claim C7 as stated fails for a negative initial investment: the engine does not
  reject it, the run returns a result like any other.
\<close>

theorem negative_money_counterexample:
  "perform_monte_carlo overdrawn 1 sample_draws =
     Inr (overdrawn_result, \<lambda>k. sample_draws (Suc k))"
proof -
  have "simulation_loop overdrawn (nat 1) ([], [], []) sample_draws =
     Inr (([- 33000], [[- 50000, - 33000]], [Some 0]), \<lambda>k. sample_draws (Suc k))"
    by (simp add: overdrawn_path)
  moreover have "get_confidence_levels [- 33000] = Inr (- 33000, - 33000)"
    by (simp add: get_confidence_levels_eq percentile_value_singleton)
  moreover have "get_yearly_percentiles [[- 50000, - 33000]] overdrawn =
      Inr (yearly_percentiles overdrawn_result)"
    by (simp add: single_table overdrawn_result_def overdrawn_def upt_conv_Cons)
  ultimately show ?thesis
    unfolding perform_monte_carlo_def by (simp add: overdrawn_result_def)
qed

text \<open>
  Claim C7, as the code has it. The engine has no validation step and no error of its
  own; what it refuses, it refuses through numpy, and everything else it accepts.
  A negative volatility or a negative horizon makes the sampler raise \<^verbatim>\<open>ValueError\<close>:
  the return generator raises it, so the path simulator raises it before it computes a
  balance, and with at least one path the aggregator raises it and returns no result.
  Without a path (\<open>n \<le> 0\<close>) the aggregator raises \<^verbatim>\<open>IndexError\<close>. With at least one
  path, a non-negative volatility and a non-negative horizon the aggregator returns a
  result, whatever the money amounts and the expected return.
\<close>

theorem engine_refusals:
  "(volatility inp < 0 \<or> years inp < 0 \<longrightarrow>
      get_random_returns (years inp) (estimated_roi inp) (volatility inp) src
        = Inl ValueError
      \<and> perform_simulation inp src = Inl ValueError
      \<and> (1 \<le> n \<longrightarrow> perform_monte_carlo inp n src = Inl ValueError))
   \<and> (n \<le> 0 \<longrightarrow> perform_monte_carlo inp n src = Inl IndexError)
   \<and> (1 \<le> n \<and> 0 \<le> volatility inp \<and> 0 \<le> years inp \<longrightarrow>
        (\<exists>res src'. perform_monte_carlo inp n src = Inr (res, src')))"
proof (intro conjI impI)
  assume bad: "volatility inp < 0 \<or> years inp < 0"
  then show g: "get_random_returns (years inp) (estimated_roi inp) (volatility inp) src
           = Inl ValueError"
    by (auto simp: get_random_returns_eq)
  then show p: "perform_simulation inp src = Inl ValueError"
    by (simp add: perform_simulation_def)
  assume "1 \<le> n"
  then obtain k where "nat n = Suc k"
    by (cases "nat n") auto
  then show "perform_monte_carlo inp n src = Inl ValueError"
    by (simp add: perform_monte_carlo_def p)
next
  assume "n \<le> 0"
  then show "perform_monte_carlo inp n src = Inl IndexError"
    by (rule no_paths_fails)
next
  assume "1 \<le> n \<and> 0 \<le> volatility inp \<and> 0 \<le> years inp"
  then show "\<exists>res src'. perform_monte_carlo inp n src = Inr (res, src')"
    using perform_monte_carlo_total [of inp n src] by blast
qed

theorem engine_refusals_witness:
  "volatility negative_volatility < 0
   \<and> get_random_returns (years negative_volatility) (estimated_roi negative_volatility)
        (volatility negative_volatility) sample_draws = Inl ValueError
   \<and> perform_simulation negative_volatility sample_draws = Inl ValueError
   \<and> perform_monte_carlo negative_volatility 2 sample_draws = Inl ValueError
   \<and> years negative_horizon < 0
   \<and> perform_simulation negative_horizon sample_draws = Inl ValueError
   \<and> perform_monte_carlo negative_horizon 2 sample_draws = Inl ValueError
   \<and> perform_monte_carlo scenario 0 sample_draws = Inl IndexError
   \<and> 0 \<le> volatility overdrawn \<and> 0 \<le> years overdrawn
   \<and> (\<exists>res src'. perform_monte_carlo overdrawn 1 sample_draws = Inr (res, src'))"
proof -
  have h1: "volatility negative_volatility < 0"
    by (simp add: negative_volatility_def)
  have h2: "years negative_horizon < 0"
    by (simp add: negative_horizon_def)
  have h3: "0 \<le> volatility overdrawn \<and> 0 \<le> years overdrawn"
    by (simp add: overdrawn_def)
  from engine_refusals [of negative_volatility sample_draws 2] h1
  have a: "get_random_returns (years negative_volatility) (estimated_roi negative_volatility)
        (volatility negative_volatility) sample_draws = Inl ValueError
   \<and> perform_simulation negative_volatility sample_draws = Inl ValueError
   \<and> perform_monte_carlo negative_volatility 2 sample_draws = Inl ValueError"
    by simp
  from engine_refusals [of negative_horizon sample_draws 2] h2
  have b: "perform_simulation negative_horizon sample_draws = Inl ValueError
   \<and> perform_monte_carlo negative_horizon 2 sample_draws = Inl ValueError"
    by simp
  from engine_refusals [of scenario sample_draws 0]
  have c: "perform_monte_carlo scenario 0 sample_draws = Inl IndexError"
    by simp
  from engine_refusals [of overdrawn sample_draws 1] h3
  have d: "\<exists>res src'. perform_monte_carlo overdrawn 1 sample_draws = Inr (res, src')"
    by simp
  from h1 h2 h3 a b c d show ?thesis
    by blast
qed

subsection \<open>The one-year scenario, evaluated\<close>

text \<open>
  With the multiplier fixed at 1.08 the recurrence of the path simulator gives a balance
  of about 71682.90 after the year.
\<close>

lemma scenario_path:
  "perform_simulation scenario (\<lambda>k. 0) =
     Inr ((3100197959013293762128365667 / 43248779296875000000000,
           [50000, 3100197959013293762128365667 / 43248779296875000000000], Some 8),
          \<lambda>k. 0)"
  by (simp add: perform_simulation_def scenario_def get_random_returns_eq np_mean_def
      eval_nat_numeral Let_def)

lemma scenario_year_one:
  assumes "perform_simulation scenario (\<lambda>k. 0) = Inr ((balance, history, mean_return), src')"
  shows "71682.90 < balance \<and> balance < 71682.91"
  using assms unfolding scenario_path by auto

end
